theory Spec2Isabelle
  imports Complex_Main
begin

section \<open>Durations and floating-point values\<close>

text \<open>
  \<^verbatim>\<open>time.Duration\<close> is a 64-bit count of nanoseconds. Every duration of the program
  is a small multiple of a second, far from the range where the count wraps, so it is
  an \<open>int\<close>. A point in time (\<^verbatim>\<open>time.Time\<close>) is the number of nanoseconds since a
  fixed origin, so that \<^verbatim>\<open>time.Since(start)\<close> is \<open>now - start\<close>.
\<close>

type_synonym Duration = int

definition Second :: Duration where
  "Second = 1000000000"

definition Minute :: Duration where
  "Minute = 60 * Second"

text \<open>
  \<^verbatim>\<open>float64\<close>: finite values are real numbers (rounding is not modelled), the three
  non-finite values are kept apart, because Go's division by zero does not panic.
\<close>

datatype float64 = Fin real | PosInf | NegInf | NaN

text \<open>\<^verbatim>\<open>Duration.Seconds()\<close>: the duration as a number of seconds.\<close>

definition Seconds :: "Duration \<Rightarrow> real" where
  "Seconds d = real_of_int d / 1000000000"

text \<open>The quotient \<^verbatim>\<open>x / y\<close> of two finite \<^verbatim>\<open>float64\<close> values.\<close>

definition float_div :: "real \<Rightarrow> real \<Rightarrow> float64" where
  "float_div x y =
     (if y \<noteq> 0 then Fin (x / y)
      else if 0 < x then PosInf
      else if x < 0 then NegInf
      else NaN)"

section \<open>Messages and commands\<close>

text \<open>
  The messages \<^verbatim>\<open>Update\<close> switches on. \<open>TickMsg\<close>, \<open>StartStopMsg\<close> and
  \<open>TimeoutMsg\<close> belong to package \<^verbatim>\<open>timer\<close> and carry the identifier of the timer
  they are for (\<open>TickMsg\<close> also a tag and the timed-out flag); \<open>KeyMsg\<close> carries the
  key's name (\<^verbatim>\<open>msg.String()\<close>), \<open>WindowSizeMsg\<close> the width and height;
  \<open>tickMsg\<close> is the program's own type, \<open>QuitMsg\<close> is what \<^verbatim>\<open>tea.Quit\<close> delivers.

  A \<^verbatim>\<open>tea.Cmd\<close> is a function the runtime runs later to obtain a message. A command is
  represented by the list of messages it will deliver: \<^verbatim>\<open>nil\<close> is \<open>[]\<close>,
  \<^verbatim>\<open>tea.Batch\<close> is concatenation.
\<close>

datatype msg =
    TickMsg int int bool
  | StartStopMsg int bool
  | TimeoutMsg int
  | KeyMsg string
  | FrameMsg
  | WindowSizeMsg int int
  | tickMsg
  | QuitMsg
  | OtherMsg

type_synonym Cmd = "msg list"

section \<open>The imported packages\<close>

subsection \<open>Package key\<close>

text \<open>
  Modelled from the spec: package \<^verbatim>\<open>key\<close> (github.com/charmbracelet/bubbles/key) is
  imported by main.go and its source is not among the repository's files. The spec
  (section 6) gives the bindings and speaks of enabled and disabled commands; the
  definitions follow the package's interface as main.go uses it: a binding holds its
  keys and a disabled flag, \<^verbatim>\<open>SetEnabled\<close> sets the flag, and \<^verbatim>\<open>Matches\<close> holds
  when the key is one of the keys of an enabled binding among those given.
\<close>

record Binding =
  keys :: "string list"
  disabled :: bool

definition NewBinding :: "string list \<Rightarrow> Binding" where
  "NewBinding ks = \<lparr>keys = ks, disabled = False\<rparr>"

definition Enabled :: "Binding \<Rightarrow> bool" where
  "Enabled b = (\<not> disabled b \<and> keys b \<noteq> [])"

definition SetEnabled :: "Binding \<Rightarrow> bool \<Rightarrow> Binding" where
  "SetEnabled b v = b\<lparr>disabled := \<not> v\<rparr>"

definition Matches :: "string \<Rightarrow> Binding list \<Rightarrow> bool" where
  "Matches k bs = list_ex (\<lambda>b. k \<in> set (keys b) \<and> Enabled b) bs"

subsection \<open>Package timer\<close>

text \<open>
  Modelled from the spec: the Duration Clock of the spec (section 4.1) is package
  \<^verbatim>\<open>timer\<close> (github.com/charmbracelet/bubbles/timer), imported by main.go; its source
  is not among the repository's files. What main.go shows of it: the exported field
  \<^verbatim>\<open>Timeout\<close> is the remaining time; \<^verbatim>\<open>Start\<close>, \<^verbatim>\<open>Stop\<close> and \<^verbatim>\<open>Toggle\<close> return
  commands, whose \<^verbatim>\<open>StartStopMsg\<close> comes back through \<^verbatim>\<open>Update\<close>; a \<^verbatim>\<open>TickMsg\<close>
  advances the clock by one interval and a \<^verbatim>\<open>TimeoutMsg\<close> reports that it reached
  zero. The spec's words for the rest: a tick is only effective while running, the
  clock is timed out when no time remains, and it does not run while timed out.
  A new timer has its flag set: the second variant's \<^verbatim>\<open>Init\<close> and reset case
  send \<^verbatim>\<open>Stop()\<close> to a timer they have just made. As the package documents it, a
  timer ignores the messages that carry another timer's identifier.

  The spec's \<open>remaining\<close> is \<open>Timeout\<close>, its \<open>running\<close> is \<open>Running\<close>, its
  \<open>timedOut\<close> is \<open>Timedout\<close>. The field \<open>running\<close> is the flag the last
  \<open>StartStopMsg\<close> asked for; \<open>id_t\<close> (the package's \<^verbatim>\<open>id\<close>) tells the timers
  apart, \<open>lastID\<close> is the package's counter of identifiers.
\<close>

record timer_Model =
  Timeout :: Duration
  Interval :: Duration
  id_t :: int
  tag :: int
  running :: bool

definition NewWithInterval :: "Duration \<Rightarrow> Duration \<Rightarrow> int \<Rightarrow> timer_Model \<times> int" where
  "NewWithInterval timeout interval lastID =
     (\<lparr>Timeout = timeout, Interval = interval, id_t = lastID + 1, tag = 0, running = True\<rparr>,
      lastID + 1)"

definition New :: "Duration \<Rightarrow> int \<Rightarrow> timer_Model \<times> int" where
  "New timeout lastID = NewWithInterval timeout Second lastID"

definition Timedout :: "timer_Model \<Rightarrow> bool" where
  "Timedout t = (Timeout t \<le> 0)"

definition Running :: "timer_Model \<Rightarrow> bool" where
  "Running t = (if Timedout t \<or> \<not> running t then False else True)"

definition tick :: "timer_Model \<Rightarrow> Cmd" where
  "tick t = [TickMsg (id_t t) (tag t) (Timedout t)]"

definition timedout :: "timer_Model \<Rightarrow> Cmd" where
  "timedout t = (if \<not> Timedout t then [] else [TimeoutMsg (id_t t)])"

definition startStop :: "timer_Model \<Rightarrow> bool \<Rightarrow> Cmd" where
  "startStop t v = [StartStopMsg (id_t t) v]"

definition Start :: "timer_Model \<Rightarrow> Cmd" where
  "Start t = startStop t True"

definition Stop :: "timer_Model \<Rightarrow> Cmd" where
  "Stop t = startStop t False"

definition Toggle :: "timer_Model \<Rightarrow> Cmd" where
  "Toggle t = startStop t (\<not> Running t)"

fun timer_Update :: "timer_Model \<Rightarrow> msg \<Rightarrow> timer_Model \<times> Cmd" where
  "timer_Update t (StartStopMsg i r) =
     (if i \<noteq> 0 \<and> i \<noteq> id_t t then (t, [])
      else (let t' = t\<lparr>running := r\<rparr> in (t', tick t')))"
| "timer_Update t (TickMsg i g to) =
     (if \<not> Running t \<or> (i \<noteq> 0 \<and> i \<noteq> id_t t) then (t, [])
      else if 0 < g \<and> g \<noteq> tag t then (t, [])
      else (let t' = t\<lparr>Timeout := Timeout t - Interval t\<rparr> in (t', tick t' @ timedout t')))"
| "timer_Update t _ = (t, [])"

subsection \<open>Package progress\<close>

text \<open>
  Modelled from the spec: package \<^verbatim>\<open>progress\<close> (github.com/charmbracelet/bubbles/progress)
  is imported by main.go and its source is not among the repository's files. The
  progress bar keeps its width (the exported field \<^verbatim>\<open>Width\<close>) and the percent it
  was last asked to show, clamped to [0,1] as the spec (section 4.2) has it. The
  animation that moves the bar towards that percent frame by frame is rendering and is
  left out: a \<open>FrameMsg\<close> changes neither field.
\<close>

record progress_Model =
  Width :: int
  targetPercent :: float64

definition clamp01 :: "float64 \<Rightarrow> float64" where
  "clamp01 p =
     (case p of
        Fin r \<Rightarrow> Fin (max 0 (min 1 r))
      | PosInf \<Rightarrow> Fin 1
      | NegInf \<Rightarrow> Fin 0
      | NaN \<Rightarrow> NaN)"

definition SetPercent :: "progress_Model \<Rightarrow> float64 \<Rightarrow> progress_Model \<times> Cmd" where
  "SetPercent pm p = (pm\<lparr>targetPercent := clamp01 p\<rparr>, [FrameMsg])"

definition progress_Update :: "progress_Model \<Rightarrow> msg \<Rightarrow> progress_Model \<times> Cmd" where
  "progress_Update pm m = (pm, [])"

definition progress_New :: progress_Model where
  "progress_New = \<lparr>Width = 40, targetPercent = Fin 0\<rparr>"

section \<open>The program\<close>

text \<open>
  main.go holds two variants of the program, one after the other. The types
  \<^verbatim>\<open>model\<close> and \<^verbatim>\<open>keymap\<close> are the same in both (the \<^verbatim>\<open>help\<close> field is only
  read by the view and is left out). The package-level variables are the record
  \<open>globals\<close>: \<open>percent\<close> (both variants), \<open>start_var\<close> (\<^verbatim>\<open>var start\<close> of the
  first variant), \<open>timeout_var\<close> (\<^verbatim>\<open>var timeout\<close> of the second variant; in the
  first variant \<^verbatim>\<open>timeout\<close> is a constant) and the timer package's \<open>lastID\<close>.
\<close>

record keymap =
  start :: Binding
  pauseTimer :: Binding
  workTimer :: Binding
  stop :: Binding
  reset :: Binding
  quit :: Binding

record model =
  timer :: timer_Model
  keymap :: keymap
  quitting :: bool
  progress :: progress_Model

record globals =
  percent :: float64
  start_var :: int
  timeout_var :: Duration
  lastID :: int

definition padding :: int where
  "padding = 2"

definition maxWidth :: int where
  "maxWidth = 80"

definition tickCmd :: Cmd where
  "tickCmd = [tickMsg]"

text \<open>The key bindings both variants of \<^verbatim>\<open>main\<close> build.\<close>

definition main_keymap :: keymap where
  "main_keymap =
     \<lparr>start = NewBinding [''s'', '' ''],
      pauseTimer = NewBinding [''p''],
      workTimer = NewBinding [''w''],
      stop = NewBinding [''s'', '' ''],
      reset = NewBinding [''r''],
      quit = NewBinding [''q'', ''ctrl+c'']\<rparr>"

text \<open>The \<^verbatim>\<open>tea.WindowSizeMsg\<close> case, the same in both variants.\<close>

definition resize :: "int \<Rightarrow> model \<Rightarrow> model" where
  "resize w m =
     (let width = w - padding * 2 - 4;
          width' = (if maxWidth < width then maxWidth else width)
      in m\<lparr>progress := (progress m)\<lparr>Width := width'\<rparr>\<rparr>)"

text \<open>
  The \<^verbatim>\<open>timer.StartStopMsg\<close> case, the same in both variants: the timer handles the
  message, then the two bindings are enabled from \<^verbatim>\<open>Running()\<close>.
\<close>

definition sync_keys :: "model \<Rightarrow> model" where
  "sync_keys m =
     m\<lparr>keymap := (keymap m)
        \<lparr>stop := SetEnabled (stop (keymap m)) (Running (timer m)),
         start := SetEnabled (start (keymap m)) (\<not> Running (timer m))\<rparr>\<rparr>"

subsection \<open>First variant (lines 1 to 209)\<close>

definition timeout :: Duration where
  "timeout = Second * 20"

definition breakTime :: Duration where
  "breakTime = Minute * 5"

text \<open>
  \<^verbatim>\<open>Update\<close>. The argument \<open>now\<close> is the wall clock that \<^verbatim>\<open>time.Since\<close> and
  \<^verbatim>\<open>time.Now\<close> read. In the reset case the commands that \<^verbatim>\<open>m.timer.Stop()\<close> and
  \<^verbatim>\<open>m.Init()\<close> return are dropped by the source, so neither has an effect.
\<close>

fun Update_v1 :: "int \<Rightarrow> msg \<Rightarrow> model \<times> globals \<Rightarrow> (model \<times> globals) \<times> Cmd" where
  "Update_v1 now (TickMsg i g to) (m, gl) =
     (let (t', cmd) = timer_Update (timer m) (TickMsg i g to);
          elapsed = now - start_var gl;
          p = float_div (Seconds elapsed) (Seconds timeout);
          (pm, progressCmd) = SetPercent (progress m) p
      in ((m\<lparr>timer := t', progress := pm\<rparr>, gl\<lparr>percent := p\<rparr>), tickCmd @ cmd @ progressCmd))"
| "Update_v1 now (StartStopMsg i r) (m, gl) =
     (let (t', cmd) = timer_Update (timer m) (StartStopMsg i r)
      in ((sync_keys (m\<lparr>timer := t'\<rparr>), gl), cmd))"
| "Update_v1 now (TimeoutMsg i) (m, gl) =
     (let (t', cmd) = timer_Update (timer m) (TimeoutMsg i)
      in ((sync_keys (m\<lparr>timer := t', quitting := True\<rparr>), gl), cmd))"
| "Update_v1 now (KeyMsg k) (m, gl) =
     (if Matches k [quit (keymap m)] then ((m\<lparr>quitting := True\<rparr>, gl), [QuitMsg])
      else if Matches k [reset (keymap m)] then
        ((m\<lparr>timer := (timer m)\<lparr>Timeout := timeout\<rparr>,
            keymap := (keymap m)\<lparr>start := SetEnabled (start (keymap m)) False\<rparr>\<rparr>,
          gl\<lparr>percent := Fin 0, start_var := now\<rparr>), [])
      else if Matches k [start (keymap m), stop (keymap m)] then ((m, gl), Toggle (timer m))
      else if Matches k [pauseTimer (keymap m)] then
        (let m' = m\<lparr>timer := (timer m)\<lparr>Timeout := breakTime\<rparr>\<rparr> in ((m', gl), Start (timer m')))
      else if Matches k [workTimer (keymap m)] then
        (let m' = m\<lparr>timer := (timer m)\<lparr>Timeout := timeout\<rparr>\<rparr> in ((m', gl), Start (timer m')))
      else ((m, gl), []))"
| "Update_v1 now FrameMsg (m, gl) =
     (let (pm, cmd) = progress_Update (progress m) FrameMsg
      in ((m\<lparr>progress := pm\<rparr>, gl), cmd))"
| "Update_v1 now (WindowSizeMsg w h) (m, gl) = ((resize w m, gl), [])"
| "Update_v1 now _ (m, gl) = ((m, gl), [])"

text \<open>
  \<^verbatim>\<open>main\<close> and \<^verbatim>\<open>Init\<close>: the state the runtime starts from, at the time \<open>t0\<close> the
  package variables were initialised, and the commands \<^verbatim>\<open>Init\<close> returns.
\<close>

definition main_v1 :: "int \<Rightarrow> model \<times> globals" where
  "main_v1 t0 =
     (let (t, n) = NewWithInterval timeout Second 0
      in (\<lparr>timer = t,
           keymap = main_keymap\<lparr>start := SetEnabled (start main_keymap) False\<rparr>,
           quitting = False,
           progress = progress_New\<rparr>,
          \<lparr>percent = Fin 0, start_var = t0, timeout_var = timeout, lastID = n\<rparr>))"

definition Init_v1 :: "model \<Rightarrow> Cmd" where
  "Init_v1 m = tick (timer m) @ tickCmd"

subsection \<open>Second variant (lines 210 to 420)\<close>

fun Update_v2 :: "msg \<Rightarrow> model \<times> globals \<Rightarrow> (model \<times> globals) \<times> Cmd" where
  "Update_v2 (TickMsg i g to) (m, gl) =
     (let p = float_div (Seconds (timeout_var gl) - Seconds (Timeout (timer m)))
                        (Seconds (timeout_var gl));
          (pm, progressCmd) = SetPercent (progress m) p;
          (t', cmd) = timer_Update (timer m) (TickMsg i g to)
      in ((m\<lparr>timer := t', progress := pm\<rparr>, gl\<lparr>percent := p\<rparr>), progressCmd @ cmd))"
| "Update_v2 (StartStopMsg i r) (m, gl) =
     (let (t', cmd) = timer_Update (timer m) (StartStopMsg i r)
      in ((sync_keys (m\<lparr>timer := t'\<rparr>), gl), cmd))"
| "Update_v2 (TimeoutMsg i) (m, gl) =
     (let (t', cmd) = timer_Update (timer m) (TimeoutMsg i)
      in ((sync_keys (m\<lparr>timer := t', quitting := True\<rparr>), gl), cmd))"
| "Update_v2 (KeyMsg k) (m, gl) =
     (if Matches k [quit (keymap m)] then ((m\<lparr>quitting := True\<rparr>, gl), [QuitMsg])
      else if Matches k [reset (keymap m)] then
        (let (pm, progressCmd) = SetPercent (progress m) (Fin 0);
             (t, n) = New (timeout_var gl) (lastID gl);
             m' = m\<lparr>timer := t, progress := pm,
                    keymap := (keymap m)\<lparr>start := SetEnabled (start (keymap m)) True\<rparr>\<rparr>
         in ((m', gl\<lparr>lastID := n\<rparr>), progressCmd @ Stop (timer m')))
      else if Matches k [start (keymap m), stop (keymap m)] then ((m, gl), Toggle (timer m))
      else if Matches k [pauseTimer (keymap m)] then
        (let (pm, progressCmd) = SetPercent (progress m) (Fin 0);
             pause = Minute * 5;
             (t, n) = New pause (lastID gl);
             m' = m\<lparr>timer := t, progress := pm\<rparr>
         in ((m', gl\<lparr>lastID := n\<rparr>), progressCmd @ Start (timer m')))
      else if Matches k [workTimer (keymap m)] then
        (let (pm, progressCmd) = SetPercent (progress m) (Fin 0);
             gl' = gl\<lparr>timeout_var := Minute * 25\<rparr>;
             (t, n) = New (timeout_var gl') (lastID gl');
             m' = m\<lparr>timer := t, progress := pm\<rparr>
         in ((m', gl'\<lparr>lastID := n\<rparr>), progressCmd @ Start (timer m')))
      else ((m, gl), []))"
| "Update_v2 FrameMsg (m, gl) =
     (let (pm, cmd) = progress_Update (progress m) FrameMsg
      in ((m\<lparr>progress := pm\<rparr>, gl), cmd))"
| "Update_v2 (WindowSizeMsg w h) (m, gl) = ((resize w m, gl), [])"
| "Update_v2 _ (m, gl) = ((m, gl), [])"

definition main_v2 :: "model \<times> globals" where
  "main_v2 =
     (let (t, n) = New (Minute * 25) 0
      in (\<lparr>timer = t,
           keymap = main_keymap\<lparr>stop := SetEnabled (stop main_keymap) False\<rparr>,
           quitting = False,
           progress = progress_New\<rparr>,
          \<lparr>percent = Fin 0, start_var = 0, timeout_var = Minute * 25, lastID = n\<rparr>))"

definition Init_v2 :: "model \<Rightarrow> Cmd" where
  "Init_v2 m = tickCmd @ Stop (timer m)"

section \<open>Sessions\<close>

text \<open>
  The runtime is one loop: it calls \<^verbatim>\<open>Init\<close>, then hands \<^verbatim>\<open>Update\<close> one message
  at a time and runs the command it returns. A session is the list of messages handled
  so far. A key press, a resize and an animation frame can come at any time; every
  other message must be one that a command returned earlier has yet to deliver (the
  pending list). \<open>QuitMsg\<close> ends the loop and is never handed to \<^verbatim>\<open>Update\<close>. A
  session that the runtime cannot produce is \<open>None\<close>. In the first variant each
  message comes with the wall-clock time at which it is handled.
\<close>

definition external :: "msg \<Rightarrow> bool" where
  "external x = (case x of KeyMsg k \<Rightarrow> True | WindowSizeMsg w h \<Rightarrow> True | FrameMsg \<Rightarrow> True | _ \<Rightarrow> False)"

definition deliverable :: "msg \<Rightarrow> Cmd \<Rightarrow> bool" where
  "deliverable x pending = (x \<noteq> QuitMsg \<and> (external x \<or> x \<in> set pending))"

fun run_v1 :: "(model \<times> globals) \<times> Cmd \<Rightarrow> (int \<times> msg) list \<Rightarrow> ((model \<times> globals) \<times> Cmd) option" where
  "run_v1 s [] = Some s"
| "run_v1 (s, pending) ((now, x) # rest) =
     (if deliverable x pending
      then (let (s', cmd) = Update_v1 now x s in run_v1 (s', remove1 x pending @ cmd) rest)
      else None)"

fun run_v2 :: "(model \<times> globals) \<times> Cmd \<Rightarrow> msg list \<Rightarrow> ((model \<times> globals) \<times> Cmd) option" where
  "run_v2 s [] = Some s"
| "run_v2 (s, pending) (x # rest) =
     (if deliverable x pending
      then (let (s', cmd) = Update_v2 x s in run_v2 (s', remove1 x pending @ cmd) rest)
      else None)"

definition session_v1 :: "int \<Rightarrow> (int \<times> msg) list \<Rightarrow> ((model \<times> globals) \<times> Cmd) option" where
  "session_v1 t0 evs = run_v1 (main_v1 t0, Init_v1 (fst (main_v1 t0))) evs"

definition session_v2 :: "msg list \<Rightarrow> ((model \<times> globals) \<times> Cmd) option" where
  "session_v2 evs = run_v2 (main_v2, Init_v2 (fst main_v2)) evs"

section \<open>What the spec measures\<close>

text \<open>
  The spec's progress value, in the spec's words: \<open>(targetDuration - remaining) /
  targetDuration\<close>, clamped to [0,1]. It is the value the claims compare the
  program's percent with.
\<close>

definition spec_percent :: "Duration \<Rightarrow> Duration \<Rightarrow> float64" where
  "spec_percent target remaining =
     clamp01 (float_div (Seconds target - Seconds remaining) (Seconds target))"

text \<open>
  The spec's \<open>targetDuration\<close>. Neither the program nor the timer keeps such a
  value; in the spec's words it is set on reset and mode switch, so it is read off the
  messages of a session: the work duration at the start and after the keys \<open>r\<close> and
  \<open>w\<close>, the break duration after the key \<open>p\<close>.
\<close>

definition retarget_v1 :: "msg \<Rightarrow> Duration \<Rightarrow> Duration" where
  "retarget_v1 x d =
     (if x = KeyMsg ''r'' \<or> x = KeyMsg ''w'' then timeout
      else if x = KeyMsg ''p'' then breakTime
      else d)"

definition targetDuration_v1 :: "msg list \<Rightarrow> Duration" where
  "targetDuration_v1 xs = foldl (\<lambda>d x. retarget_v1 x d) timeout xs"

definition retarget_v2 :: "msg \<Rightarrow> Duration \<Rightarrow> Duration" where
  "retarget_v2 x d =
     (if x = KeyMsg ''r'' \<or> x = KeyMsg ''w'' then Minute * 25
      else if x = KeyMsg ''p'' then Minute * 5
      else d)"

definition targetDuration_v2 :: "msg list \<Rightarrow> Duration" where
  "targetDuration_v2 xs = foldl (\<lambda>d x. retarget_v2 x d) (Minute * 25) xs"

text \<open>
  Facts that hold along every session: the bindings keep their keys and only
  \<open>start\<close> and \<open>stop\<close> are ever disabled; the clock's remaining time is a whole
  number of seconds between zero and the target, and its interval is one second. In
  the second variant the work duration stays 25 minutes and the percent stays a
  number between 0 and 1.
\<close>

definition keys_ok :: "keymap \<Rightarrow> bool" where
  "keys_ok km =
     (keys (start km) = [''s'', '' ''] \<and> keys (stop km) = [''s'', '' '']
      \<and> reset km = NewBinding [''r''] \<and> quit km = NewBinding [''q'', ''ctrl+c'']
      \<and> pauseTimer km = NewBinding [''p''] \<and> workTimer km = NewBinding [''w''])"

definition clock_ok :: "Duration \<Rightarrow> timer_Model \<Rightarrow> bool" where
  "clock_ok d t =
     (0 \<le> Timeout t \<and> Timeout t \<le> d \<and> Second dvd Timeout t \<and> Interval t = Second)"

definition inv_v1 :: "Duration \<Rightarrow> model \<times> globals \<Rightarrow> bool" where
  "inv_v1 d s = (keys_ok (keymap (fst s)) \<and> clock_ok d (timer (fst s)))"

definition percent_ok :: "float64 \<Rightarrow> bool" where
  "percent_ok p = (case p of Fin r \<Rightarrow> 0 \<le> r \<and> r \<le> 1 | _ \<Rightarrow> False)"

definition inv_v2 :: "Duration \<Rightarrow> model \<times> globals \<Rightarrow> bool" where
  "inv_v2 d s =
     (keys_ok (keymap (fst s)) \<and> clock_ok d (timer (fst s))
      \<and> timeout_var (snd s) = Minute * 25 \<and> d \<le> Minute * 25
      \<and> percent_ok (percent (snd s)))"

section \<open>Example sessions\<close>

text \<open>
  A session of the first variant: the user stops the clock at once, the tick that was
  under way arrives after one second, the user starts the clock again \<open>t\<close> seconds
  after the program started, and one second later the clock ticks.
\<close>

definition resumed_at :: "int \<Rightarrow> (int \<times> msg) list" where
  "resumed_at t =
     [(0, KeyMsg ''s''), (0, StartStopMsg 1 False), (1 * Second, TickMsg 1 0 False),
      (t * Second, KeyMsg ''s''), (t * Second, StartStopMsg 1 True),
      ((t + 1) * Second, TickMsg 1 0 False)]"

text \<open>
  A session of the first variant in which nothing is pressed: the clock ticks twenty
  times, once a second, and the timeout message that the last tick sends is handled.
\<close>

definition countdown :: "(int \<times> msg) list" where
  "countdown =
     [(1 * Second, TickMsg 1 0 False), (2 * Second, TickMsg 1 0 False),
      (3 * Second, TickMsg 1 0 False), (4 * Second, TickMsg 1 0 False),
      (5 * Second, TickMsg 1 0 False), (6 * Second, TickMsg 1 0 False),
      (7 * Second, TickMsg 1 0 False), (8 * Second, TickMsg 1 0 False),
      (9 * Second, TickMsg 1 0 False), (10 * Second, TickMsg 1 0 False),
      (11 * Second, TickMsg 1 0 False), (12 * Second, TickMsg 1 0 False),
      (13 * Second, TickMsg 1 0 False), (14 * Second, TickMsg 1 0 False),
      (15 * Second, TickMsg 1 0 False), (16 * Second, TickMsg 1 0 False),
      (17 * Second, TickMsg 1 0 False), (18 * Second, TickMsg 1 0 False),
      (19 * Second, TickMsg 1 0 False), (20 * Second, TickMsg 1 0 False),
      (20 * Second, TimeoutMsg 1)]"

text \<open>The runtime is about to end the loop: a \<open>QuitMsg\<close> is among the pending messages.\<close>

definition will_quit :: "(model \<times> globals) \<times> Cmd \<Rightarrow> bool" where
  "will_quit s = (QuitMsg \<in> set (snd s))"


text \<open>The result of an update, with the quitting flag set.\<close>

definition set_quitting :: "(model \<times> globals) \<times> Cmd \<Rightarrow> (model \<times> globals) \<times> Cmd" where
  "set_quitting r = (((fst (fst r))\<lparr>quitting := True\<rparr>, snd (fst r)), snd r)"

section \<open>Facts about sessions\<close>

lemmas pkg_defs =
  Second_def Minute_def Seconds_def float_div_def NewBinding_def Enabled_def SetEnabled_def
  Matches_def NewWithInterval_def New_def Timedout_def Running_def tick_def timedout_def
  startStop_def Start_def Stop_def Toggle_def clamp01_def SetPercent_def progress_Update_def
  progress_New_def

lemmas prog_defs =
  padding_def maxWidth_def tickCmd_def main_keymap_def resize_def sync_keys_def timeout_def
  breakTime_def main_v1_def Init_v1_def main_v2_def Init_v2_def external_def deliverable_def
  session_v1_def session_v2_def

lemma tick_step_ok:
  assumes "clock_ok d t"
  shows "clock_ok d (fst (timer_Update t x))"
proof (cases x)
  case (TickMsg i g to)
  have "0 \<le> Timeout t - Second" if "0 < Timeout t"
  proof -
    from assms obtain k where k: "Timeout t = Second * k"
      by (auto simp: clock_ok_def dvd_def)
    with that have "0 < k" by (simp add: Second_def)
    then have "1 \<le> k" by simp
    then have "Second * 1 \<le> Second * k" by (simp add: Second_def)
    with k show ?thesis by simp
  qed
  moreover have "0 < Second" by (simp add: Second_def)
  ultimately show ?thesis using assms TickMsg
    by (auto simp: clock_ok_def Running_def Timedout_def Let_def)
next
  case (StartStopMsg i r)
  with assms show ?thesis by (auto simp: clock_ok_def Let_def)
qed (use assms in auto)

lemma Update_v1_inv:
  assumes "inv_v1 d s"
  shows "inv_v1 (retarget_v1 x d) (fst (Update_v1 now x s))"
proof (cases s)
  case (Pair m gl)
  note s = this
  show ?thesis
  proof (cases x)
    case (KeyMsg k)
    with assms s show ?thesis
      by (auto simp: inv_v1_def keys_ok_def clock_ok_def retarget_v1_def Matches_def
          NewBinding_def Enabled_def SetEnabled_def timeout_def breakTime_def Second_def
          Minute_def Let_def)
  next
    case (TickMsg i g to)
    with assms s tick_step_ok [of d "timer m" x] show ?thesis
      by (auto simp: inv_v1_def retarget_v1_def SetPercent_def Let_def split: prod.splits)
  next
    case (StartStopMsg i r)
    with assms s tick_step_ok [of d "timer m" x] show ?thesis
      by (auto simp: inv_v1_def keys_ok_def retarget_v1_def sync_keys_def SetEnabled_def
          Let_def split: prod.splits)
  next
    case (TimeoutMsg i)
    with assms s show ?thesis
      by (auto simp: inv_v1_def keys_ok_def retarget_v1_def sync_keys_def SetEnabled_def
          Let_def split: prod.splits)
  next
    case FrameMsg
    with assms s show ?thesis
      by (auto simp: inv_v1_def retarget_v1_def progress_Update_def)
  next
    case (WindowSizeMsg w h)
    with assms s show ?thesis
      by (auto simp: inv_v1_def retarget_v1_def resize_def Let_def)
  qed (use assms s in \<open>auto simp: inv_v1_def retarget_v1_def\<close>)
qed

lemma Update_v2_inv:
  assumes "inv_v2 d s"
  shows "inv_v2 (retarget_v2 x d) (fst (Update_v2 x s))"
proof (cases s)
  case (Pair m gl)
  note s = this
  show ?thesis
  proof (cases x)
    case (KeyMsg k)
    with assms s show ?thesis
      by (auto simp: inv_v2_def keys_ok_def clock_ok_def retarget_v2_def Matches_def
          NewBinding_def Enabled_def SetEnabled_def New_def NewWithInterval_def SetPercent_def
          Second_def Minute_def Let_def)
  next
    case (TickMsg i g to)
    from assms s have "percent_ok (float_div (Seconds (timeout_var gl) - Seconds (Timeout (timer m)))
        (Seconds (timeout_var gl)))"
      by (auto simp: inv_v2_def clock_ok_def percent_ok_def float_div_def Seconds_def
          Minute_def Second_def field_simps)
    with TickMsg assms s tick_step_ok [of d "timer m" x] show ?thesis
      by (auto simp: inv_v2_def retarget_v2_def SetPercent_def Let_def split: prod.splits)
  next
    case (StartStopMsg i r)
    with assms s tick_step_ok [of d "timer m" x] show ?thesis
      by (auto simp: inv_v2_def keys_ok_def retarget_v2_def sync_keys_def SetEnabled_def
          Let_def split: prod.splits)
  next
    case (TimeoutMsg i)
    with assms s show ?thesis
      by (auto simp: inv_v2_def keys_ok_def retarget_v2_def sync_keys_def SetEnabled_def
          Let_def split: prod.splits)
  next
    case FrameMsg
    with assms s show ?thesis
      by (auto simp: inv_v2_def retarget_v2_def progress_Update_def)
  next
    case (WindowSizeMsg w h)
    with assms s show ?thesis
      by (auto simp: inv_v2_def retarget_v2_def resize_def Let_def)
  qed (use assms s in \<open>auto simp: inv_v2_def retarget_v2_def\<close>)
qed

lemma run_v1_inv:
  "run_v1 (s, p) evs = Some (s', p') \<Longrightarrow> inv_v1 d s \<Longrightarrow>
     inv_v1 (foldl (\<lambda>d x. retarget_v1 x d) d (map snd evs)) s'"
proof (induction evs arbitrary: s p d)
  case Nil
  then show ?case by simp
next
  case (Cons e evs)
  obtain now x where e: "e = (now, x)" by (cases e)
  obtain s1 c where u: "Update_v1 now x s = (s1, c)" by (cases "Update_v1 now x s")
  from Cons.prems(1) e u have r: "run_v1 (s1, remove1 x p @ c) evs = Some (s', p')"
    by (simp split: if_splits)
  from Update_v1_inv [OF Cons.prems(2), of x now] u have "inv_v1 (retarget_v1 x d) s1"
    by simp
  from Cons.IH [OF r this] e show ?case by simp
qed

lemma run_v2_inv:
  "run_v2 (s, p) evs = Some (s', p') \<Longrightarrow> inv_v2 d s \<Longrightarrow>
     inv_v2 (foldl (\<lambda>d x. retarget_v2 x d) d evs) s'"
proof (induction evs arbitrary: s p d)
  case Nil
  then show ?case by simp
next
  case (Cons x evs)
  obtain s1 c where u: "Update_v2 x s = (s1, c)" by (cases "Update_v2 x s")
  from Cons.prems(1) u have r: "run_v2 (s1, remove1 x p @ c) evs = Some (s', p')"
    by (simp split: if_splits)
  from Update_v2_inv [OF Cons.prems(2), of x] u have "inv_v2 (retarget_v2 x d) s1"
    by simp
  from Cons.IH [OF r this] show ?case by simp
qed

lemma main_v1_inv: "inv_v1 timeout (main_v1 t0)"
  by (simp add: inv_v1_def keys_ok_def clock_ok_def main_v1_def main_keymap_def
      NewWithInterval_def NewBinding_def SetEnabled_def timeout_def Second_def)

lemma main_v2_inv: "inv_v2 (Minute * 25) main_v2"
  by (simp add: inv_v2_def keys_ok_def clock_ok_def percent_ok_def main_v2_def main_keymap_def
      New_def NewWithInterval_def NewBinding_def SetEnabled_def Second_def Minute_def)

lemma session_v1_inv:
  "session_v1 t0 evs = Some (s, p) \<Longrightarrow> inv_v1 (targetDuration_v1 (map snd evs)) s"
  unfolding session_v1_def targetDuration_v1_def
  by (rule run_v1_inv [OF _ main_v1_inv])

lemma session_v2_inv:
  "session_v2 evs = Some (s, p) \<Longrightarrow> inv_v2 (targetDuration_v2 evs) s"
  unfolding session_v2_def targetDuration_v2_def
  by (rule run_v2_inv [OF _ main_v2_inv])






section \<open>C1: the percent after a tick\<close>

text \<open>
  C1 as the spec states it: in every reachable state the displayed percent is
  \<open>(targetDuration - remaining) / targetDuration\<close> clamped to [0,1], a function of the
  clock alone. It fails. In the first variant two sessions with the same messages,
  resumed 10 and 14 seconds after the start, end with the same clock (19 of 20 seconds
  remain, for which the spec's value is 1/20) and with the percents 11/20 and 15/20. In
  the second variant, after the first tick of a session the bar is asked to show 0
  while 1499 of 1500 seconds remain.
\<close>

theorem tick_percent_not_clock_ratio_counterexample:
  "map_option (percent \<circ> snd \<circ> fst) (session_v1 0 (resumed_at 10)) = Some (Fin (11 / 20))
   \<and> map_option (percent \<circ> snd \<circ> fst) (session_v1 0 (resumed_at 14)) = Some (Fin (15 / 20))
   \<and> map_option (Timeout \<circ> timer \<circ> fst \<circ> fst) (session_v1 0 (resumed_at 10)) = Some (19 * Second)
   \<and> map_option (Timeout \<circ> timer \<circ> fst \<circ> fst) (session_v1 0 (resumed_at 14)) = Some (19 * Second)
   \<and> targetDuration_v1 (map snd (resumed_at 10)) = 20 * Second
   \<and> targetDuration_v1 (map snd (resumed_at 14)) = 20 * Second
   \<and> spec_percent (20 * Second) (19 * Second) = Fin (1 / 20)
   \<and> map_option (targetPercent \<circ> progress \<circ> fst \<circ> fst)
        (session_v2 [StartStopMsg 1 False, KeyMsg ''s'', StartStopMsg 1 True, TickMsg 1 0 False])
      = Some (Fin 0)
   \<and> map_option (Timeout \<circ> timer \<circ> fst \<circ> fst)
        (session_v2 [StartStopMsg 1 False, KeyMsg ''s'', StartStopMsg 1 True, TickMsg 1 0 False])
      = Some (1499 * Second)
   \<and> spec_percent (1500 * Second) (1499 * Second) = Fin (1 / 1500)"
  by (simp add: pkg_defs prog_defs resumed_at_def spec_percent_def targetDuration_v1_def
      retarget_v1_def Let_def)

text \<open>
  C1 as amended: in the second variant, while the clock's target is the work duration,
  processing a tick sets the percent, and the value the bar is asked to show, to
  \<open>(targetDuration - remaining) / targetDuration\<close>, where \<open>remaining\<close> is the
  clock's remaining time before that tick is taken off; the value lies in [0,1] without
  clamping. In the first variant processing a tick sets the percent to the wall-clock
  time since \<open>start\<close> divided by the work duration of 20 seconds, whatever the clock
  holds, and the bar is asked to show that value clamped to [0,1].
\<close>

theorem tick_percent_formula:
  "(session_v2 evs = Some ((m, gl), p) \<and> targetDuration_v2 evs = Minute * 25 \<longrightarrow>
      percent (snd (fst (Update_v2 (TickMsg i g to) (m, gl))))
        = spec_percent (targetDuration_v2 evs) (Timeout (timer m))
      \<and> targetPercent (progress (fst (fst (Update_v2 (TickMsg i g to) (m, gl)))))
        = spec_percent (targetDuration_v2 evs) (Timeout (timer m)))
   \<and> percent (snd (fst (Update_v1 now (TickMsg i g to) (m', gl'))))
     = float_div (Seconds (now - start_var gl')) (Seconds timeout)
   \<and> targetPercent (progress (fst (fst (Update_v1 now (TickMsg i g to) (m', gl')))))
     = clamp01 (float_div (Seconds (now - start_var gl')) (Seconds timeout))"
proof -
  have v2: "percent (snd (fst (Update_v2 (TickMsg i g to) (m, gl))))
        = spec_percent (targetDuration_v2 evs) (Timeout (timer m))
      \<and> targetPercent (progress (fst (fst (Update_v2 (TickMsg i g to) (m, gl)))))
        = spec_percent (targetDuration_v2 evs) (Timeout (timer m))"
    if s: "session_v2 evs = Some ((m, gl), p)" and w: "targetDuration_v2 evs = Minute * 25"
  proof -
    from session_v2_inv [OF s] w
    have tv: "timeout_var gl = Minute * 25" and lo: "0 \<le> Timeout (timer m)"
      and hi: "Timeout (timer m) \<le> Minute * 25"
      by (simp_all add: inv_v2_def clock_ok_def)
    let ?q = "float_div (Seconds (Minute * 25) - Seconds (Timeout (timer m))) (Seconds (Minute * 25))"
    from lo hi have "clamp01 ?q = ?q"
      by (simp add: clamp01_def float_div_def Seconds_def Minute_def Second_def field_simps)
    with tv w show ?thesis
      by (simp add: spec_percent_def SetPercent_def Let_def split: prod.splits)
  qed
  have v1: "percent (snd (fst (Update_v1 now (TickMsg i g to) (m', gl'))))
       = float_div (Seconds (now - start_var gl')) (Seconds timeout)
     \<and> targetPercent (progress (fst (fst (Update_v1 now (TickMsg i g to) (m', gl')))))
       = clamp01 (float_div (Seconds (now - start_var gl')) (Seconds timeout))"
    by (simp add: SetPercent_def Let_def split: prod.splits)
  from v1 v2 show ?thesis by blast
qed

theorem tick_percent_formula_witness:
  "session_v2 [StartStopMsg 1 False, KeyMsg ''s'', StartStopMsg 1 True, TickMsg 1 0 False]
     \<noteq> None
   \<and> targetDuration_v2 [StartStopMsg 1 False, KeyMsg ''s'', StartStopMsg 1 True, TickMsg 1 0 False]
       = Minute * 25
   \<and> map_option (percent \<circ> snd \<circ> fst)
        (session_v2 [StartStopMsg 1 False, KeyMsg ''s'', StartStopMsg 1 True, TickMsg 1 0 False,
           TickMsg 1 0 False]) = Some (Fin (1 / 1500))
   \<and> spec_percent (Minute * 25) (1499 * Second) = Fin (1 / 1500)
   \<and> percent (snd (fst (Update_v1 (30 * Second) (TickMsg 1 0 False) (main_v1 0)))) = Fin (3 / 2)
   \<and> targetPercent (progress (fst (fst (Update_v1 (30 * Second) (TickMsg 1 0 False) (main_v1 0)))))
       = Fin 1"
  using tick_percent_formula
    [of "[StartStopMsg 1 False, KeyMsg ''s'', StartStopMsg 1 True, TickMsg 1 0 False]"
      "fst (fst (the (session_v2 [StartStopMsg 1 False, KeyMsg ''s'', StartStopMsg 1 True,
         TickMsg 1 0 False])))"
      "snd (fst (the (session_v2 [StartStopMsg 1 False, KeyMsg ''s'', StartStopMsg 1 True,
         TickMsg 1 0 False])))"
      "snd (the (session_v2 [StartStopMsg 1 False, KeyMsg ''s'', StartStopMsg 1 True,
         TickMsg 1 0 False]))"
      1 0 False "30 * Second" "fst (main_v1 0)" "snd (main_v1 0)"]
  by (simp add: pkg_defs prog_defs spec_percent_def targetDuration_v2_def retarget_v2_def Let_def)

section \<open>C2: a timed-out clock\<close>



section \<open>C3: reset\<close>

text \<open>
  C3 as the spec states it: after Reset the clock is stopped and the Start control is
  enabled. It fails in the first variant: a reset five seconds into a session leaves
  Start disabled and the clock running, with no message pending that would stop it.
\<close>

theorem reset_disables_start_counterexample:
  "map_option (Enabled \<circ> start \<circ> keymap \<circ> fst \<circ> fst) (session_v1 0 [(5 * Second, KeyMsg ''r'')])
     = Some False
   \<and> map_option (Running \<circ> timer \<circ> fst \<circ> fst) (session_v1 0 [(5 * Second, KeyMsg ''r'')])
     = Some True
   \<and> map_option snd (session_v1 0 [(5 * Second, KeyMsg ''r'')]) = Some [TickMsg 1 0 False, tickMsg]"
  by (simp add: pkg_defs prog_defs Let_def)

text \<open>
  C3 as amended: processing Reset sets the clock's remaining time to the work duration
  and the percent to 0 (in the first variant the percent variable, and the wall-clock
  origin \<open>start\<close> becomes the present time; in the second variant the percent the bar
  is asked to show). The second variant makes a new clock, enables Start at once and
  issues the Stop command for the new clock: once that command's message is processed
  the clock is not running and Start is still enabled. The first variant disables
  Start.
\<close>

theorem reset_effect:
  assumes "Matches k [reset (keymap m)]" and "\<not> Matches k [quit (keymap m)]"
    and "Update_v1 now (KeyMsg k) (m, gl) = ((m1, gl1), c1)"
    and "Update_v2 (KeyMsg k) (m, gl) = ((m2, gl2), c2)"
  shows "Timeout (timer m1) = timeout \<and> percent gl1 = Fin 0 \<and> start_var gl1 = now
     \<and> \<not> Enabled (start (keymap m1))
     \<and> Timeout (timer m2) = timeout_var gl \<and> timeout_var gl2 = timeout_var gl
     \<and> targetPercent (progress m2) = Fin 0
     \<and> (Enabled (start (keymap m2)) \<longleftrightarrow> keys (start (keymap m)) \<noteq> [])
     \<and> c2 = [FrameMsg, StartStopMsg (id_t (timer m2)) False]
     \<and> \<not> Running (timer (fst (fst (Update_v2 (StartStopMsg (id_t (timer m2)) False) (m2, gl2)))))
     \<and> (Enabled (start (keymap (fst (fst (Update_v2 (StartStopMsg (id_t (timer m2)) False) (m2, gl2))))))
          \<longleftrightarrow> keys (start (keymap m)) \<noteq> [])"
  using assms
  by (auto simp: Enabled_def SetEnabled_def New_def NewWithInterval_def SetPercent_def
      clamp01_def Stop_def startStop_def Running_def sync_keys_def Let_def tick_def)

theorem reset_effect_witness:
  "Matches ''r'' [reset (keymap (fst main_v2))] \<and> \<not> Matches ''r'' [quit (keymap (fst main_v2))]
   \<and> Timeout (timer (fst (fst (Update_v1 7 (KeyMsg ''r'') main_v2)))) = 20 * Second
   \<and> start_var (snd (fst (Update_v1 7 (KeyMsg ''r'') main_v2))) = 7
   \<and> Timeout (timer (fst (fst (Update_v2 (KeyMsg ''r'') main_v2)))) = 1500 * Second
   \<and> Enabled (start (keymap (fst (fst (Update_v2 (KeyMsg ''r'') main_v2)))))
   \<and> snd (Update_v2 (KeyMsg ''r'') main_v2) = [FrameMsg, StartStopMsg 2 False]"
  using reset_effect [of "''r''" "fst main_v2" 7 "snd main_v2"
      "fst (fst (Update_v1 7 (KeyMsg ''r'') main_v2))" "snd (fst (Update_v1 7 (KeyMsg ''r'') main_v2))"
      "snd (Update_v1 7 (KeyMsg ''r'') main_v2)"
      "fst (fst (Update_v2 (KeyMsg ''r'') main_v2))" "snd (fst (Update_v2 (KeyMsg ''r'') main_v2))"
      "snd (Update_v2 (KeyMsg ''r'') main_v2)"]
  by (simp add: pkg_defs prog_defs Let_def)

section \<open>C4: the Start and Stop controls\<close>




section \<open>C5: commands after Quit\<close>

text \<open>
  C5 as the spec states it: once quitting is true every further command is ignored. It
  fails: in both variants the break key pressed after the quit key, before the runtime
  has ended the loop, sets the clock to 5 minutes.
\<close>

theorem commands_after_quit_counterexample:
  "map_option (quitting \<circ> fst \<circ> fst) (session_v2 [KeyMsg ''q'']) = Some True
   \<and> map_option (Timeout \<circ> timer \<circ> fst \<circ> fst) (session_v2 [KeyMsg ''q'']) = Some (25 * Minute)
   \<and> map_option (Timeout \<circ> timer \<circ> fst \<circ> fst) (session_v2 [KeyMsg ''q'', KeyMsg ''p''])
       = Some (5 * Minute)
   \<and> map_option (quitting \<circ> fst \<circ> fst) (session_v1 0 [(0, KeyMsg ''q'')]) = Some True
   \<and> map_option (Timeout \<circ> timer \<circ> fst \<circ> fst) (session_v1 0 [(0, KeyMsg ''q'')])
       = Some (20 * Second)
   \<and> map_option (Timeout \<circ> timer \<circ> fst \<circ> fst)
        (session_v1 0 [(0, KeyMsg ''q''), (0, KeyMsg ''p'')]) = Some (5 * Minute)"
  by (simp add: pkg_defs prog_defs Let_def)

text \<open>
  C5 as amended: once quitting is true it stays true whatever message follows, and
  another Quit changes no state (it issues the quit command again). No case of
  \<^verbatim>\<open>Update\<close> reads the flag: every message is processed exactly as it would be
  with quitting false, the flag apart.
\<close>

theorem quitting_is_never_read:
  "Update_v1 now x (m\<lparr>quitting := True\<rparr>, gl) = set_quitting (Update_v1 now x (m\<lparr>quitting := False\<rparr>, gl))
   \<and> Update_v2 x (m\<lparr>quitting := True\<rparr>, gl) = set_quitting (Update_v2 x (m\<lparr>quitting := False\<rparr>, gl))
   \<and> (quitting m \<longrightarrow> quitting (fst (fst (Update_v1 now x (m, gl))))
                      \<and> quitting (fst (fst (Update_v2 x (m, gl)))))
   \<and> (quitting m \<and> Matches k [quit (keymap m)] \<longrightarrow>
         Update_v1 now (KeyMsg k) (m, gl) = ((m, gl), [QuitMsg])
         \<and> Update_v2 (KeyMsg k) (m, gl) = ((m, gl), [QuitMsg]))"
proof -
  have a: "Update_v1 now x (m\<lparr>quitting := True\<rparr>, gl)
      = set_quitting (Update_v1 now x (m\<lparr>quitting := False\<rparr>, gl))"
    by (cases x)
      (simp_all add: set_quitting_def sync_keys_def SetPercent_def progress_Update_def
        resize_def Let_def split: prod.splits)
  have b: "Update_v2 x (m\<lparr>quitting := True\<rparr>, gl)
      = set_quitting (Update_v2 x (m\<lparr>quitting := False\<rparr>, gl))"
    by (cases x)
      (simp_all add: set_quitting_def sync_keys_def SetPercent_def progress_Update_def
        resize_def Let_def split: prod.splits)
  have c: "quitting (fst (fst (Update_v1 now x (m, gl))))
      \<and> quitting (fst (fst (Update_v2 x (m, gl))))" if "quitting m"
    using that
    by (cases x)
      (simp_all add: sync_keys_def SetPercent_def progress_Update_def
        resize_def Let_def split: prod.splits)
  have d: "Update_v1 now (KeyMsg k) (m, gl) = ((m, gl), [QuitMsg])
      \<and> Update_v2 (KeyMsg k) (m, gl) = ((m, gl), [QuitMsg])"
    if "quitting m" and "Matches k [quit (keymap m)]"
    using that by simp
  from a b c d show ?thesis by blast
qed

theorem quitting_is_never_read_witness:
  "quitting (fst (fst (Update_v2 (KeyMsg ''q'') main_v2)))
   \<and> Matches ''q'' [quit (keymap (fst (fst (Update_v2 (KeyMsg ''q'') main_v2))))]
   \<and> Update_v2 (KeyMsg ''q'') (fst (Update_v2 (KeyMsg ''q'') main_v2))
       = (fst (Update_v2 (KeyMsg ''q'') main_v2), [QuitMsg])
   \<and> Update_v1 0 (KeyMsg ''q'') (fst (Update_v2 (KeyMsg ''q'') main_v2))
       = (fst (Update_v2 (KeyMsg ''q'') main_v2), [QuitMsg])
   \<and> quitting (fst (fst (Update_v2 (KeyMsg ''p'') (fst (Update_v2 (KeyMsg ''q'') main_v2)))))"
  using quitting_is_never_read [of 0 "KeyMsg ''p''" "fst (fst (Update_v2 (KeyMsg ''q'') main_v2))"
      "snd (fst (Update_v2 (KeyMsg ''q'') main_v2))" "''q''"]
  by (simp add: pkg_defs prog_defs set_quitting_def Let_def)

section \<open>C6: switching to the break\<close>

text \<open>
  C6 as the spec states it: SwitchToBreak sets the clock to 5 minutes, the clock runs
  at once and the percent is 0. It fails in the first variant: pressed on a stopped
  clock after one tick, the break key leaves the clock stopped until the start message
  is processed, and the percent stays 1/20.
\<close>

theorem break_not_started_counterexample:
  "map_option (Timeout \<circ> timer \<circ> fst \<circ> fst)
     (session_v1 0 [(0, KeyMsg ''s''), (0, StartStopMsg 1 False), (1 * Second, TickMsg 1 0 False),
        (2 * Second, KeyMsg ''p'')]) = Some (5 * Minute)
   \<and> map_option (Running \<circ> timer \<circ> fst \<circ> fst)
     (session_v1 0 [(0, KeyMsg ''s''), (0, StartStopMsg 1 False), (1 * Second, TickMsg 1 0 False),
        (2 * Second, KeyMsg ''p'')]) = Some False
   \<and> map_option (percent \<circ> snd \<circ> fst)
     (session_v1 0 [(0, KeyMsg ''s''), (0, StartStopMsg 1 False), (1 * Second, TickMsg 1 0 False),
        (2 * Second, KeyMsg ''p'')]) = Some (Fin (1 / 20))
   \<and> map_option (targetPercent \<circ> progress \<circ> fst \<circ> fst)
     (session_v1 0 [(0, KeyMsg ''s''), (0, StartStopMsg 1 False), (1 * Second, TickMsg 1 0 False),
        (2 * Second, KeyMsg ''p'')]) = Some (Fin (1 / 20))"
  by (simp add: pkg_defs prog_defs Let_def)

text \<open>
  C6 as amended: processing SwitchToBreak sets the clock's remaining time to the break
  duration of 5 minutes and issues the Start command for it; the clock is running once
  that command's message has been processed. In the second variant the clock is a new
  one that is running at once, and the bar is asked to show 0.
\<close>

theorem switch_to_break_effect:
  assumes "Matches k [pauseTimer (keymap m)]" and "\<not> Matches k [quit (keymap m)]"
    and "\<not> Matches k [reset (keymap m)]"
    and "\<not> Matches k [start (keymap m), stop (keymap m)]"
    and "Update_v1 now (KeyMsg k) (m, gl) = ((m1, gl1), c1)"
    and "Update_v2 (KeyMsg k) (m, gl) = ((m2, gl2), c2)"
  shows "Timeout (timer m1) = 5 * Minute
     \<and> c1 = [StartStopMsg (id_t (timer m1)) True]
     \<and> Running (timer (fst (fst (Update_v1 now' (StartStopMsg (id_t (timer m1)) True) (m1, gl1)))))
     \<and> Timeout (timer m2) = 5 * Minute
     \<and> Running (timer m2)
     \<and> targetPercent (progress m2) = Fin 0
     \<and> c2 = [FrameMsg, StartStopMsg (id_t (timer m2)) True]
     \<and> Running (timer (fst (fst (Update_v2 (StartStopMsg (id_t (timer m2)) True) (m2, gl2)))))"
  using assms
  by (auto simp: New_def NewWithInterval_def SetPercent_def clamp01_def Start_def startStop_def
      Running_def Timedout_def sync_keys_def breakTime_def Minute_def Second_def Let_def tick_def)

theorem switch_to_break_effect_witness:
  "Matches ''p'' [pauseTimer (keymap (fst main_v2))] \<and> \<not> Matches ''p'' [quit (keymap (fst main_v2))]
   \<and> \<not> Matches ''p'' [reset (keymap (fst main_v2))]
   \<and> \<not> Matches ''p'' [start (keymap (fst main_v2)), stop (keymap (fst main_v2))]
   \<and> Timeout (timer (fst (fst (Update_v1 0 (KeyMsg ''p'') main_v2)))) = 300 * Second
   \<and> snd (Update_v1 0 (KeyMsg ''p'') main_v2) = [StartStopMsg 1 True]
   \<and> Timeout (timer (fst (fst (Update_v2 (KeyMsg ''p'') main_v2)))) = 300 * Second
   \<and> Running (timer (fst (fst (Update_v2 (KeyMsg ''p'') main_v2))))
   \<and> snd (Update_v2 (KeyMsg ''p'') main_v2) = [FrameMsg, StartStopMsg 2 True]"
  using switch_to_break_effect [of "''p''" "fst main_v2" 0 "snd main_v2"
      "fst (fst (Update_v1 0 (KeyMsg ''p'') main_v2))" "snd (fst (Update_v1 0 (KeyMsg ''p'') main_v2))"
      "snd (Update_v1 0 (KeyMsg ''p'') main_v2)"
      "fst (fst (Update_v2 (KeyMsg ''p'') main_v2))" "snd (fst (Update_v2 (KeyMsg ''p'') main_v2))"
      "snd (Update_v2 (KeyMsg ''p'') main_v2)" 0]
  by (simp add: pkg_defs prog_defs Let_def)

section \<open>C7: bounds of the percent\<close>

text \<open>
  C7 as the spec states it: the progress computation returns a value in [0,1] and
  exactly 0 on a freshly retargeted clock. It fails. In the first variant a session
  resumed 30 seconds after the start has the percent 31/20. In the second variant the
  first tick of a break clock, on which all 5 minutes still remain, gives 4/5.
\<close>

theorem percent_out_of_bounds_counterexample:
  "map_option (percent \<circ> snd \<circ> fst) (session_v1 0 (resumed_at 30)) = Some (Fin (31 / 20))
   \<and> map_option (Timeout \<circ> timer \<circ> fst \<circ> fst)
        (session_v2 [StartStopMsg 1 False, KeyMsg ''p'', StartStopMsg 2 True]) = Some (5 * Minute)
   \<and> map_option (percent \<circ> snd \<circ> fst)
        (session_v2 [StartStopMsg 1 False, KeyMsg ''p'', StartStopMsg 2 True, TickMsg 2 0 False])
      = Some (Fin (4 / 5))"
  by (simp add: pkg_defs prog_defs resumed_at_def Let_def)

text \<open>
  C7 as amended: the progress computation has no guard against a zero divisor; its
  divisor is the work duration, which is the constant 20 seconds in the first variant
  and stays 25 minutes throughout every session of the second. In every session of the
  second variant the percent lies in [0,1], also after the next tick, and that tick
  gives exactly 0 when the clock's remaining time is the work duration. In the first
  variant a tick gives the wall-clock time since \<open>start\<close> divided by 20 seconds: a
  finite number, not negative when the wall clock has not gone back, with no upper
  bound.
\<close>

theorem percent_bounds:
  "(session_v2 evs = Some ((m, gl), p) \<longrightarrow>
      timeout_var gl = Minute * 25
      \<and> percent_ok (percent gl)
      \<and> percent_ok (percent (snd (fst (Update_v2 (TickMsg i g to) (m, gl)))))
      \<and> (Timeout (timer m) = Minute * 25
           \<longrightarrow> percent (snd (fst (Update_v2 (TickMsg i g to) (m, gl)))) = Fin 0))
   \<and> percent (snd (fst (Update_v1 now (TickMsg i g to) (m, gl))))
       = Fin (Seconds (now - start_var gl) / 20)
   \<and> (start_var gl \<le> now \<longrightarrow> 0 \<le> Seconds (now - start_var gl) / 20)"
proof -
  have v2: "timeout_var gl = Minute * 25
      \<and> percent_ok (percent gl)
      \<and> percent_ok (percent (snd (fst (Update_v2 (TickMsg i g to) (m, gl)))))
      \<and> (Timeout (timer m) = Minute * 25
           \<longrightarrow> percent (snd (fst (Update_v2 (TickMsg i g to) (m, gl)))) = Fin 0)"
    if s: "session_v2 evs = Some ((m, gl), p)"
  proof -
    from session_v2_inv [OF s] have inv: "inv_v2 (targetDuration_v2 evs) (m, gl)" .
    from Update_v2_inv [OF inv, of "TickMsg i g to"]
    have "percent_ok (percent (snd (fst (Update_v2 (TickMsg i g to) (m, gl)))))"
      by (simp add: inv_v2_def)
    moreover from inv have "timeout_var gl = Minute * 25" and "percent_ok (percent gl)"
      by (simp_all add: inv_v2_def)
    moreover from inv have "Timeout (timer m) = Minute * 25
           \<longrightarrow> percent (snd (fst (Update_v2 (TickMsg i g to) (m, gl)))) = Fin 0"
      by (auto simp: inv_v2_def float_div_def Seconds_def Minute_def Second_def SetPercent_def
          Let_def split: prod.splits)
    ultimately show ?thesis by simp
  qed
  have v1: "percent (snd (fst (Update_v1 now (TickMsg i g to) (m, gl))))
       = Fin (Seconds (now - start_var gl) / 20)"
    by (simp add: float_div_def Seconds_def timeout_def Second_def SetPercent_def Let_def
        split: prod.splits)
  have "start_var gl \<le> now \<longrightarrow> 0 \<le> Seconds (now - start_var gl) / 20"
    by (simp add: Seconds_def)
  with v1 v2 show ?thesis by blast
qed

theorem percent_bounds_witness:
  "session_v2 [] = Some (main_v2, Init_v2 (fst main_v2))
   \<and> timeout_var (snd main_v2) = Minute * 25
   \<and> Timeout (timer (fst main_v2)) = Minute * 25
   \<and> percent_ok (percent (snd (fst (Update_v2 (TickMsg 1 0 False) main_v2))))
   \<and> percent (snd (fst (Update_v2 (TickMsg 1 0 False) main_v2))) = Fin 0
   \<and> percent (snd (fst (Update_v1 (5 * Second) (TickMsg 1 0 False) (main_v1 0)))) = Fin (1 / 4)"
  using percent_bounds [of "[]" "fst main_v2" "snd main_v2" "Init_v2 (fst main_v2)"
      1 0 False "5 * Second"]
    percent_bounds [of "[]" "fst (main_v1 0)" "snd (main_v1 0)" "[]" 1 0 False "5 * Second"]
  by (simp add: pkg_defs prog_defs Let_def)

section \<open>C8: the invariant of the clock\<close>

text \<open>
  C8. In every session of either variant the clock's remaining time lies between 0 and
  the target duration (the duration the clock was last set to), the clock is timed out
  if and only if no time remains, and it does not run while it is timed out. A session
  is any sequence of ticks, start and stop messages, key presses (among them the
  retargeting ones) and other events that the runtime can deliver, so every operation
  keeps these facts.
\<close>

theorem clock_invariant:
  "(session_v1 t0 evs1 = Some ((m1, gl1), p1) \<longrightarrow>
      0 \<le> Timeout (timer m1) \<and> Timeout (timer m1) \<le> targetDuration_v1 (map snd evs1)
      \<and> (Timedout (timer m1) \<longleftrightarrow> Timeout (timer m1) = 0)
      \<and> (Timedout (timer m1) \<longrightarrow> \<not> Running (timer m1)))
   \<and> (session_v2 evs2 = Some ((m2, gl2), p2) \<longrightarrow>
      0 \<le> Timeout (timer m2) \<and> Timeout (timer m2) \<le> targetDuration_v2 evs2
      \<and> (Timedout (timer m2) \<longleftrightarrow> Timeout (timer m2) = 0)
      \<and> (Timedout (timer m2) \<longrightarrow> \<not> Running (timer m2)))"
proof (intro conjI impI)
  assume "session_v1 t0 evs1 = Some ((m1, gl1), p1)"
  from session_v1_inv [OF this]
  have c: "clock_ok (targetDuration_v1 (map snd evs1)) (timer m1)"
    by (simp add: inv_v1_def)
  then show "0 \<le> Timeout (timer m1)"
    and "Timeout (timer m1) \<le> targetDuration_v1 (map snd evs1)"
    by (simp_all add: clock_ok_def)
  from c show "Timedout (timer m1) \<longleftrightarrow> Timeout (timer m1) = 0"
    by (auto simp: clock_ok_def Timedout_def)
  show "\<not> Running (timer m1)" if "Timedout (timer m1)"
    using that by (simp add: Running_def)
next
  assume "session_v2 evs2 = Some ((m2, gl2), p2)"
  from session_v2_inv [OF this]
  have c: "clock_ok (targetDuration_v2 evs2) (timer m2)"
    by (simp add: inv_v2_def)
  then show "0 \<le> Timeout (timer m2)"
    and "Timeout (timer m2) \<le> targetDuration_v2 evs2"
    by (simp_all add: clock_ok_def)
  from c show "Timedout (timer m2) \<longleftrightarrow> Timeout (timer m2) = 0"
    by (auto simp: clock_ok_def Timedout_def)
  show "\<not> Running (timer m2)" if "Timedout (timer m2)"
    using that by (simp add: Running_def)
qed

theorem clock_invariant_witness:
  "session_v1 0 (resumed_at 10) \<noteq> None
   \<and> map_option (Timeout \<circ> timer \<circ> fst \<circ> fst) (session_v1 0 (resumed_at 10)) = Some (19 * Second)
   \<and> targetDuration_v1 (map snd (resumed_at 10)) = 20 * Second
   \<and> session_v2 [StartStopMsg 1 False, KeyMsg ''p'', StartStopMsg 2 True, TickMsg 2 0 False]
       \<noteq> None
   \<and> map_option (Timeout \<circ> timer \<circ> fst \<circ> fst)
        (session_v2 [StartStopMsg 1 False, KeyMsg ''p'', StartStopMsg 2 True, TickMsg 2 0 False])
       = Some (299 * Second)
   \<and> targetDuration_v2 [StartStopMsg 1 False, KeyMsg ''p'', StartStopMsg 2 True, TickMsg 2 0 False]
       = 300 * Second"
  using clock_invariant [of 0 "resumed_at 10"
      "fst (fst (the (session_v1 0 (resumed_at 10))))"
      "snd (fst (the (session_v1 0 (resumed_at 10))))"
      "snd (the (session_v1 0 (resumed_at 10)))"
      "[StartStopMsg 1 False, KeyMsg ''p'', StartStopMsg 2 True, TickMsg 2 0 False]"
      "fst (fst (the (session_v2 [StartStopMsg 1 False, KeyMsg ''p'', StartStopMsg 2 True,
         TickMsg 2 0 False])))"
      "snd (fst (the (session_v2 [StartStopMsg 1 False, KeyMsg ''p'', StartStopMsg 2 True,
         TickMsg 2 0 False])))"
      "snd (the (session_v2 [StartStopMsg 1 False, KeyMsg ''p'', StartStopMsg 2 True,
         TickMsg 2 0 False]))"]
  by (simp add: pkg_defs prog_defs resumed_at_def targetDuration_v1_def retarget_v1_def
      targetDuration_v2_def retarget_v2_def Let_def)

section \<open>C9: resize events\<close>

text \<open>
  C9. Processing a resize event changes nothing but the width of the progress bar: in
  both variants the clock (remaining time, running, timed out), the key bindings with
  their enabled flags, the quitting flag, the percent the bar was asked to show and
  every package-level variable (percent, work duration) are the same before and after,
  and no command is issued.
\<close>

theorem resize_only_changes_width:
  "Update_v1 now (WindowSizeMsg w h) (m, gl) =
     ((m\<lparr>progress := (progress m)\<lparr>Width := min maxWidth (w - padding * 2 - 4)\<rparr>\<rparr>, gl), [])
   \<and> Update_v2 (WindowSizeMsg w h) (m, gl) =
     ((m\<lparr>progress := (progress m)\<lparr>Width := min maxWidth (w - padding * 2 - 4)\<rparr>\<rparr>, gl), [])
   \<and> (\<forall>s'. s' = fst (Update_v1 now (WindowSizeMsg w h) (m, gl))
           \<or> s' = fst (Update_v2 (WindowSizeMsg w h) (m, gl)) \<longrightarrow>
         timer (fst s') = timer m
         \<and> Timeout (timer (fst s')) = Timeout (timer m)
         \<and> Running (timer (fst s')) = Running (timer m)
         \<and> Timedout (timer (fst s')) = Timedout (timer m)
         \<and> keymap (fst s') = keymap m
         \<and> quitting (fst s') = quitting m
         \<and> targetPercent (progress (fst s')) = targetPercent (progress m)
         \<and> snd s' = gl)"
  by (auto simp: resize_def Let_def min_def)

theorem resize_only_changes_width_witness:
  "Update_v1 0 (WindowSizeMsg 120 40) (main_v1 0) =
     ((fst (main_v1 0)\<lparr>progress := \<lparr>Width = 80, targetPercent = Fin 0\<rparr>\<rparr>, snd (main_v1 0)), [])
   \<and> Update_v2 (WindowSizeMsg 30 40) main_v2 =
     ((fst main_v2\<lparr>progress := \<lparr>Width = 22, targetPercent = Fin 0\<rparr>\<rparr>, snd main_v2), [])"
  using resize_only_changes_width [of 0 120 40 "fst (main_v1 0)" "snd (main_v1 0)"]
        resize_only_changes_width [of 0 30 40 "fst main_v2" "snd main_v2"]
  by (simp add: main_v1_def main_v2_def progress_New_def maxWidth_def padding_def
        NewWithInterval_def New_def)

section \<open>C10: the timeout message\<close>

text \<open>
  C10 as stated: processing the timeout message sets quitting, so reaching zero ends
  the session instead of leaving it timed out and waiting for a retarget. It fails.
  After the twenty ticks and the timeout message of a session of the first variant
  quitting is true and no time remains, but no quit message is pending, as one is after
  the quit key; the work key then sets the clock to 20 seconds again and, once its start
  message is processed, the clock runs.
\<close>

theorem timeout_not_terminal_counterexample:
  "map_option (quitting \<circ> fst \<circ> fst) (session_v1 0 countdown) = Some True
   \<and> map_option (Timeout \<circ> timer \<circ> fst \<circ> fst) (session_v1 0 countdown) = Some 0
   \<and> map_option will_quit (session_v1 0 countdown) = Some False
   \<and> map_option (Timeout \<circ> timer \<circ> fst \<circ> fst)
        (session_v1 0 (countdown @ [(21 * Second, KeyMsg ''w''), (21 * Second, StartStopMsg 1 True)]))
       = Some (20 * Second)
   \<and> map_option (Running \<circ> timer \<circ> fst \<circ> fst)
        (session_v1 0 (countdown @ [(21 * Second, KeyMsg ''w''), (21 * Second, StartStopMsg 1 True)]))
       = Some True
   \<and> map_option will_quit (session_v1 0 [(0, KeyMsg ''q'')]) = Some True"
  by (simp add: pkg_defs prog_defs countdown_def will_quit_def Let_def)

text \<open>
  C10 as amended: processing the timeout message sets quitting to true, the flag the
  Quit key also sets, and enables Start and Stop from the clock's running state. Unlike
  Quit, which issues the quit command, it issues no command: the session goes on in the
  timed-out state.
\<close>

theorem timeout_sets_quitting:
  "quitting (fst (fst (Update_v1 now (TimeoutMsg i) (m, gl))))
   \<and> quitting (fst (fst (Update_v2 (TimeoutMsg i) (m, gl))))
   \<and> snd (Update_v1 now (TimeoutMsg i) (m, gl)) = []
   \<and> snd (Update_v2 (TimeoutMsg i) (m, gl)) = []
   \<and> fst (Update_v1 now (TimeoutMsg i) (m, gl)) = (sync_keys (m\<lparr>quitting := True\<rparr>), gl)
   \<and> fst (Update_v2 (TimeoutMsg i) (m, gl)) = (sync_keys (m\<lparr>quitting := True\<rparr>), gl)
   \<and> (Matches k [quit (keymap m)] \<longrightarrow>
         Update_v1 now (KeyMsg k) (m, gl) = ((m\<lparr>quitting := True\<rparr>, gl), [QuitMsg])
         \<and> Update_v2 (KeyMsg k) (m, gl) = ((m\<lparr>quitting := True\<rparr>, gl), [QuitMsg]))"
  by (simp add: sync_keys_def)

theorem timeout_sets_quitting_witness:
  "Matches ''q'' [quit (keymap (fst main_v2))]
   \<and> quitting (fst (fst (Update_v2 (TimeoutMsg 1) main_v2)))
   \<and> quitting (fst (fst (Update_v1 0 (TimeoutMsg 1) main_v2)))
   \<and> snd (Update_v2 (TimeoutMsg 1) main_v2) = []
   \<and> snd (Update_v2 (KeyMsg ''q'') main_v2) = [QuitMsg]"
  using timeout_sets_quitting [of 0 1 "fst main_v2" "snd main_v2" "''q''"]
  by (simp add: pkg_defs prog_defs Let_def)

end
